theory Spec2Isabelle
  imports Main
begin

section \<open>The date and time picker of \<open>errands/widgets/components.py\<close>\<close>

text \<open>
  The class \<open>DateTime\<close> is a Gtk box holding two spin buttons (hour, minutes), a calendar
  and a row of preset buttons. Its logic is embedded here as functions on a record of the
  fields the methods read and write. What the class consumes from outside (the Python
  standard library, GLib and Gtk) is modelled in the first two subsections; the methods
  follow in source order.
\<close>

subsection \<open>Python primitives: exceptions, \<open>str\<close>, \<open>int\<close>, slices, \<open>split\<close>\<close>

datatype error = ValueError | TypeError | OverflowError

text \<open>The decimal digit characters \<open>0\<close> .. \<open>9\<close> are the bytes 48 .. 57.\<close>

definition digit_char :: "nat \<Rightarrow> char" where
  "digit_char d = ''0123456789'' ! d"

definition digit_val :: "char \<Rightarrow> nat option" where
  "digit_val c =
     (let k = (of_char c :: nat) in if 48 \<le> k \<and> k \<le> 57 then Some (k - 48) else None)"

definition is_digit :: "char \<Rightarrow> bool" where
  "is_digit c \<longleftrightarrow> digit_val c \<noteq> None"

text \<open>\<open>str(n)\<close> for a natural number: its decimal digits, most significant first.\<close>

fun dec :: "nat \<Rightarrow> string" where
  "dec n = (if n < 10 then [digit_char n] else dec (n div 10) @ [digit_char (n mod 10)])"

declare dec.simps [simp del]

text \<open>\<open>str(i)\<close> for a Python integer.\<close>

definition py_str :: "int \<Rightarrow> string" where
  "py_str i = (if i < 0 then CHR ''-'' # dec (nat (- i)) else dec (nat i))"

text \<open>The value of a string of decimal digits, read left to right.\<close>

definition digits_val :: "string \<Rightarrow> nat" where
  "digits_val s = foldl (\<lambda>a c. 10 * a + the (digit_val c)) 0 s"

text \<open>
  \<open>int(s)\<close>: the strings that reach \<open>int\<close> in this class are slices of formatted dates and
  the halves of a button label, so the model reads a non-empty string of decimal digits
  and raises \<open>ValueError\<close> (the value \<open>None\<close>) on anything else. The signs, underscores and
  surrounding blanks that Python also accepts do not occur in them.
\<close>

definition py_int :: "string \<Rightarrow> int option" where
  "py_int s = (if s \<noteq> [] \<and> list_all is_digit s then Some (int (digits_val s)) else None)"

text \<open>The slice \<open>s[i:j]\<close> for \<open>0 \<le> i \<le> j\<close>; like Python's, it never fails.\<close>

definition slice :: "nat \<Rightarrow> nat \<Rightarrow> 'a list \<Rightarrow> 'a list" where
  "slice i j s = take (j - i) (drop i s)"

text \<open>\<open>s.split(sep)\<close> for a separator of one character.\<close>

fun py_split :: "char \<Rightarrow> string \<Rightarrow> string list" where
  "py_split sep [] = [[]]"
| "py_split sep (c # cs) =
     (if c = sep then [] # py_split sep cs
      else (case py_split sep cs of
              w # ws \<Rightarrow> (c # w) # ws
            | [] \<Rightarrow> [[c]]))"

text \<open>A number printed in a field of at least \<open>w\<close> characters, filled with zeros (\<open>%02d\<close>).\<close>

definition zfill :: "nat \<Rightarrow> string \<Rightarrow> string" where
  "zfill w s = replicate (w - length s) CHR ''0'' @ s"

subsection \<open>Dates: \<open>datetime.datetime\<close>, \<open>GLib.DateTime\<close>\<close>

record pydatetime =
  dt_year :: nat
  dt_month :: nat
  dt_day :: nat
  dt_hour :: nat
  dt_minute :: nat
  dt_second :: nat

text \<open>The date a \<open>GLib.DateTime\<close> carries; the calendar tracks nothing else.\<close>

record gdate =
  g_year :: nat
  g_month :: nat
  g_day :: nat

definition is_leap :: "nat \<Rightarrow> bool" where
  "is_leap y \<longleftrightarrow> y mod 4 = 0 \<and> (y mod 100 \<noteq> 0 \<or> y mod 400 = 0)"

definition days_in_month :: "nat \<Rightarrow> nat \<Rightarrow> nat" where
  "days_in_month y m =
     (if m = 2 then (if is_leap y then 29 else 28)
      else if m = 4 \<or> m = 6 \<or> m = 9 \<or> m = 11 then 30 else 31)"

definition valid_date :: "nat \<Rightarrow> nat \<Rightarrow> nat \<Rightarrow> bool" where
  "valid_date y m d \<longleftrightarrow>
     1 \<le> y \<and> y \<le> 9999 \<and> 1 \<le> m \<and> m \<le> 12 \<and> 1 \<le> d \<and> d \<le> days_in_month y m"

text \<open>The range every \<open>datetime.datetime\<close> object is in.\<close>

definition valid_pydatetime :: "pydatetime \<Rightarrow> bool" where
  "valid_pydatetime d \<longleftrightarrow>
     valid_date (dt_year d) (dt_month d) (dt_day d) \<and>
     dt_hour d \<le> 23 \<and> dt_minute d \<le> 59 \<and> dt_second d \<le> 59"

text \<open>
  \<open>d.strftime("%Y%m%dT%H%M00")\<close> and \<open>d.strftime("%Y%m%dT000000")\<close>. Python hands the
  format to the C library, which prints \<open>%Y\<close> as the plain decimal year (year 999 is
  \<open>999\<close>, three characters) and the other fields in two digits.
\<close>

definition strftime_YmdTHM00 :: "pydatetime \<Rightarrow> string" where
  "strftime_YmdTHM00 d =
     dec (dt_year d) @ zfill 2 (dec (dt_month d)) @ zfill 2 (dec (dt_day d)) @
     ''T'' @ zfill 2 (dec (dt_hour d)) @ zfill 2 (dec (dt_minute d)) @ ''00''"

definition strftime_YmdT000000 :: "pydatetime \<Rightarrow> string" where
  "strftime_YmdT000000 d =
     dec (dt_year d) @ zfill 2 (dec (dt_month d)) @ zfill 2 (dec (dt_day d)) @
     ''T000000''"

text \<open>
  \<open>d + datetime.timedelta(1)\<close>: the same time on the next day; past 31 December 9999 the
  addition raises \<open>OverflowError\<close>.
\<close>

definition add_one_day :: "pydatetime \<Rightarrow> pydatetime option" where
  "add_one_day d =
     (if dt_day d < days_in_month (dt_year d) (dt_month d) then Some (d\<lparr>dt_day := dt_day d + 1\<rparr>)
      else if dt_month d < 12 then Some (d\<lparr>dt_month := dt_month d + 1, dt_day := 1\<rparr>)
      else if dt_year d < 9999 then Some (d\<lparr>dt_year := dt_year d + 1, dt_month := 1, dt_day := 1\<rparr>)
      else None)"

text \<open>
  \<open>datetime.datetime.fromisoformat\<close> on the compact form \<open>YYYYMMDDTHHMMSS\<close>. The library
  reads other ISO 8601 forms as well; the methods below take the parser from the host, and
  this function is the reference for what a host does on the compact form.
\<close>

definition fromisoformat_basic :: "string \<Rightarrow> pydatetime option" where
  "fromisoformat_basic s =
     (if length s = 15 \<and> s ! 8 = CHR ''T'' \<and>
         list_all is_digit (take 8 s) \<and> list_all is_digit (drop 9 s)
      then
        (let d = \<lparr>dt_year = digits_val (slice 0 4 s), dt_month = digits_val (slice 4 6 s),
                  dt_day = digits_val (slice 6 8 s), dt_hour = digits_val (slice 9 11 s),
                  dt_minute = digits_val (slice 11 13 s), dt_second = digits_val (slice 13 15 s)\<rparr>
         in if valid_pydatetime d then Some d else None)
      else None)"

text \<open>
  \<open>GLib.DateTime.new_local(y, m, d, 0, 0, 0)\<close>: \<open>None\<close> when the date does not exist.
\<close>

definition g_date_time_new_local :: "int \<Rightarrow> int \<Rightarrow> int \<Rightarrow> gdate option" where
  "g_date_time_new_local y m d =
     (if 0 \<le> y \<and> 0 \<le> m \<and> 0 \<le> d \<and> valid_date (nat y) (nat m) (nat d)
      then Some \<lparr>g_year = nat y, g_month = nat m, g_day = nat d\<rparr> else None)"

text \<open>
  \<open>GLib.DateTime.format("%Y%m%d")\<close>: GLib prints \<open>%Y\<close> as the plain decimal year and the
  month and day in two digits.
\<close>

definition g_format_Ymd :: "gdate \<Rightarrow> string" where
  "g_format_Ymd g = dec (g_year g) @ zfill 2 (dec (g_month g)) @ zfill 2 (dec (g_day g))"

text \<open>
  What the widget takes from its host: the ISO parser of the standard library, the clock
  (\<open>datetime.datetime.now()\<close>, \<open>GLib.DateTime.new_now_local()\<close>), the message catalogue
  (\<open>_\<close>), the month names of the locale (\<open>%B\<close>), and whether \<open>Gtk.Calendar.select_day\<close>
  signals \<open>day-selected\<close> when the day given is the one already selected (Gtk releases
  differ on this).
\<close>

record host =
  fromisoformat :: "string \<Rightarrow> pydatetime option"
  now :: pydatetime
  gettext :: "string \<Rightarrow> string"
  month_name :: "nat \<Rightarrow> string"
  reselect_emits :: bool

definition new_now_local :: "host \<Rightarrow> gdate" where
  "new_now_local h =
     \<lparr>g_year = dt_year (now h), g_month = dt_month (now h), g_day = dt_day (now h)\<rparr>"

text \<open>\<open>GLib.DateTime.format("%d %B, %Y")\<close>.\<close>

definition g_format_dBY :: "host \<Rightarrow> gdate \<Rightarrow> string" where
  "g_format_dBY h g =
     zfill 2 (dec (g_day g)) @ '' '' @ month_name h (g_month g) @ '', '' @ dec (g_year g)"

subsection \<open>The widget\<close>

text \<open>
  The fields of a \<open>DateTime\<close> object: the class attributes \<open>datetime\<close> and \<open>lock_signals\<close>, the
  values of the two spin buttons, the day the calendar has selected, and the number of
  times the signal \<open>changed\<close> has been emitted.
\<close>

record picker =
  datetime :: string
  lock_signals :: bool
  hour :: int
  minutes :: int
  calendar :: gdate
  changed_emitted :: nat

text \<open>A method call either returns or raises, and leaves the object in some state.\<close>

datatype outcome = Done picker | Raised error picker

fun state_of :: "outcome \<Rightarrow> picker" where
  "state_of (Done st) = st"
| "state_of (Raised e st) = st"

definition emit_changed :: "picker \<Rightarrow> picker" where
  "emit_changed st = st\<lparr>changed_emitted := changed_emitted st + 1\<rparr>"

text \<open>
  \<open>__init__\<close> and \<open>_build_ui\<close>: the spin buttons start at the lower bound of their
  adjustments, the calendar at the current day; connecting the handlers emits nothing, and
  the class attributes keep their declared values.
\<close>

definition init :: "host \<Rightarrow> picker" where
  "init h = \<lparr>datetime = [], lock_signals = True, hour = 0, minutes = 0,
             calendar = new_now_local h, changed_emitted = 0\<rparr>"

definition on_date_time_changed :: "picker \<Rightarrow> picker" where
  "on_date_time_changed st =
     (let hour0 = py_str (hour st);
          hour1 = (if length hour0 = 1 then ''0'' @ hour0 else hour0);
          min0 = py_str (minutes st);
          min1 = (if length min0 = 1 then ''0'' @ min0 else min0);
          date = g_format_Ymd (calendar st);
          st1 = st\<lparr>datetime := date @ ''T'' @ hour1 @ min1 @ ''00''\<rparr>
      in if \<not> lock_signals st1 then emit_changed st1 else st1)"

text \<open>
  \<open>Gtk.SpinButton.set_value\<close>: the value is clamped to the bounds of the adjustment, and
  \<open>value-changed\<close> (connected to \<open>_on_date_time_changed\<close>) is signalled when the value
  differs from the one held. A user editing the spin button goes the same way.
\<close>

definition spin_clamp :: "int \<Rightarrow> int \<Rightarrow> int \<Rightarrow> int" where
  "spin_clamp lower upper v = (if v < lower then lower else if upper < v then upper else v)"

definition hour_set_value :: "int \<Rightarrow> picker \<Rightarrow> picker" where
  "hour_set_value v st =
     (let v1 = spin_clamp 0 23 v
      in if v1 = hour st then st else on_date_time_changed (st\<lparr>hour := v1\<rparr>))"

definition minutes_set_value :: "int \<Rightarrow> picker \<Rightarrow> picker" where
  "minutes_set_value v st =
     (let v1 = spin_clamp 0 59 v
      in if v1 = minutes st then st else on_date_time_changed (st\<lparr>minutes := v1\<rparr>))"

text \<open>
  \<open>Gtk.Calendar.select_day\<close>, with \<open>day-selected\<close> connected to \<open>_on_date_time_changed\<close>.
\<close>

definition calendar_select_day :: "host \<Rightarrow> gdate \<Rightarrow> picker \<Rightarrow> picker" where
  "calendar_select_day h g st =
     (if g = calendar st \<and> \<not> reselect_emits h then st
      else on_date_time_changed (st\<lparr>calendar := g\<rparr>))"

definition on_time_preset_clicked :: "string \<Rightarrow> picker \<Rightarrow> outcome" where
  "on_time_preset_clicked label st =
     (case py_split CHR '':'' label of
        [hour0, min0] \<Rightarrow>
          (case py_int hour0 of
             None \<Rightarrow> Raised ValueError st
           | Some hv \<Rightarrow>
               (let st1 = hour_set_value hv st
                in case py_int min0 of
                     None \<Rightarrow> Raised ValueError st1
                   | Some mv \<Rightarrow> Done (minutes_set_value mv st1)))
      | _ \<Rightarrow> Raised ValueError st)"

definition get_datetime :: "picker \<Rightarrow> string" where
  "get_datetime st = datetime st"

definition get_human_datetime :: "host \<Rightarrow> picker \<Rightarrow> string" where
  "get_human_datetime h st =
     (if datetime st \<noteq> []
      then slice 9 11 (datetime st) @ '':'' @ slice 11 13 (datetime st) @ '', '' @
           g_format_dBY h (calendar st)
      else gettext h ''Not Set'')"

definition get_datetime_as_int :: "picker \<Rightarrow> error + int" where
  "get_datetime_as_int st =
     (if datetime st \<noteq> []
      then (case py_int (take 8 (datetime st) @ drop 9 (datetime st)) of
              None \<Rightarrow> Inl ValueError
            | Some i \<Rightarrow> Inr i)
      else Inr 0)"

definition set_datetime :: "host \<Rightarrow> string \<Rightarrow> picker \<Rightarrow> outcome" where
  "set_datetime h dt st =
     (let st1 = st\<lparr>lock_signals := True\<rparr>
      in if dt \<noteq> [] then
           (case fromisoformat h dt of
              None \<Rightarrow> Raised ValueError st1
            | Some d \<Rightarrow>
                (let dt1 = strftime_YmdTHM00 d
                 in case py_int (slice 9 11 dt1) of
                      None \<Rightarrow> Raised ValueError st1
                    | Some hv \<Rightarrow>
                        (let st2 = hour_set_value hv st1
                         in case py_int (slice 11 13 dt1) of
                              None \<Rightarrow> Raised ValueError st2
                            | Some mv \<Rightarrow>
                                (let st3 = minutes_set_value mv st2
                                 in case (py_int (slice 0 4 dt1), py_int (slice 4 6 dt1),
                                          py_int (slice 6 8 dt1)) of
                                      (Some y, Some m, Some dd) \<Rightarrow>
                                        (case g_date_time_new_local y m dd of
                                           None \<Rightarrow> Raised TypeError st3
                                         | Some g \<Rightarrow>
                                             Done ((calendar_select_day h g st3)
                                                   \<lparr>datetime := dt1, lock_signals := False\<rparr>))
                                    | _ \<Rightarrow> Raised ValueError st3))))
         else
           (let st2 = hour_set_value 0 st1;
                st3 = minutes_set_value 0 st2;
                st4 = calendar_select_day h (new_now_local h) st3
            in Done (st4\<lparr>datetime := dt, lock_signals := False\<rparr>)))"

text \<open>The four buttons under the calendar.\<close>

definition on_now_btn_clicked :: "host \<Rightarrow> picker \<Rightarrow> outcome" where
  "on_now_btn_clicked h st =
     (case set_datetime h (strftime_YmdTHM00 (now h)) st of
        Raised e st1 \<Rightarrow> Raised e st1
      | Done st1 \<Rightarrow> Done (emit_changed st1))"

definition on_today_btn_clicked :: "host \<Rightarrow> picker \<Rightarrow> outcome" where
  "on_today_btn_clicked h st =
     (case set_datetime h (strftime_YmdT000000 (now h)) st of
        Raised e st1 \<Rightarrow> Raised e st1
      | Done st1 \<Rightarrow> Done (emit_changed st1))"

definition on_tomorrow_btn_clicked :: "host \<Rightarrow> picker \<Rightarrow> outcome" where
  "on_tomorrow_btn_clicked h st =
     (case add_one_day (now h) of
        None \<Rightarrow> Raised OverflowError st
      | Some d \<Rightarrow>
          (case set_datetime h (strftime_YmdT000000 d) st of
             Raised e st1 \<Rightarrow> Raised e st1
           | Done st1 \<Rightarrow> Done (emit_changed st1)))"

definition on_clear_btn_clicked :: "picker \<Rightarrow> picker" where
  "on_clear_btn_clicked st = emit_changed (st\<lparr>datetime := []\<rparr>)"

subsection \<open>The canonical string, and a host to run the methods on\<close>

text \<open>
  The shape \<open>YYYYMMDDThhmmss\<close>: fifteen characters, a \<open>T\<close> at index 8 and decimal digits
  everywhere else.
\<close>

definition canonical_shape :: "string \<Rightarrow> bool" where
  "canonical_shape s \<longleftrightarrow>
     length s = 15 \<and> list_all is_digit (take 8 s) \<and> s ! 8 = CHR ''T'' \<and>
     list_all is_digit (drop 9 s)"



definition four_digits :: "nat \<Rightarrow> string" where
  "four_digits n =
     [digit_char (n div 1000), digit_char (n div 100 mod 10), digit_char (n div 10 mod 10),
      digit_char (n mod 10)]"

text \<open>The labels of the four time buttons built in \<open>_build_ui\<close>, with the times they encode.\<close>

definition time_presets :: "(string \<times> int \<times> int) list" where
  "time_presets = [(''09:00'', 9, 0), (''13:00'', 13, 0), (''17:00'', 17, 0), (''20:00'', 20, 0)]"

text \<open>
  A host whose parser is the compact-form parser above, whose clock reads 09:30:12 on
  15 January 2024, with an untranslated catalogue and English month names.
\<close>

definition english_month :: "nat \<Rightarrow> string" where
  "english_month m =
     (if 1 \<le> m \<and> m \<le> 12
      then [''January'', ''February'', ''March'', ''April'', ''May'', ''June'', ''July'',
            ''August'', ''September'', ''October'', ''November'', ''December''] ! (m - 1)
      else [])"

definition example_host :: host where
  "example_host =
     \<lparr>fromisoformat = fromisoformat_basic,
      now = \<lparr>dt_year = 2024, dt_month = 1, dt_day = 15, dt_hour = 9, dt_minute = 30,
             dt_second = 12\<rparr>,
      gettext = (\<lambda>s. s), month_name = english_month, reselect_emits = False\<rparr>"

section \<open>Properties\<close>

subsection \<open>Digits and decimal numerals\<close>

lemma lt10_cases:
  assumes "d < (10::nat)"
  shows "d = 0 \<or> d = 1 \<or> d = 2 \<or> d = 3 \<or> d = 4 \<or> d = 5 \<or> d = 6 \<or> d = 7 \<or> d = 8 \<or> d = 9"
  using assms by arith

lemma digit_val_digit_char: "d < 10 \<Longrightarrow> digit_val (digit_char d) = Some d"
  using lt10_cases [of d] by (auto simp: digit_val_def digit_char_def)


lemma is_digit_digit_char: "d < 10 \<Longrightarrow> is_digit (digit_char d)"
  by (simp add: is_digit_def digit_val_digit_char)


lemma digit_val_zero: "digit_val CHR ''0'' = Some 0"
  by (simp add: digit_val_def)

lemma is_digit_zero: "is_digit CHR ''0''"
  by (simp add: is_digit_def digit_val_def)

lemma dec_lt10: "n < 10 \<Longrightarrow> dec n = [digit_char n]"
  by (simp add: dec.simps)

lemma dec_ge10: "10 \<le> n \<Longrightarrow> dec n = dec (n div 10) @ [digit_char (n mod 10)]"
  by (subst dec.simps) simp

lemma dec_not_Nil: "dec n \<noteq> []"
  by (subst dec.simps) simp

lemma dec_all_digits: "list_all is_digit (dec n)"
  by (induction n rule: dec.induct) (subst dec.simps, simp add: is_digit_digit_char)

lemma digits_val_Nil: "digits_val [] = 0"
  by (simp add: digits_val_def)

lemma digits_val_snoc: "digits_val (s @ [c]) = 10 * digits_val s + the (digit_val c)"
  by (simp add: digits_val_def)

lemma digits_val_dec: "digits_val (dec n) = n"
proof (induction n rule: dec.induct)
  case (1 n)
  show ?case
  proof (cases "n < 10")
    case True
    then show ?thesis
      using digits_val_snoc [of "[]" "digit_char n"]
      by (simp add: dec_lt10 digits_val_Nil digit_val_digit_char)
  next
    case False
    then show ?thesis using 1
      by (simp add: dec_ge10 digits_val_snoc digit_val_digit_char)
  qed
qed

lemma digits_val_zeros: "digits_val (replicate k CHR ''0'' @ s) = digits_val s"
proof -
  have "foldl (\<lambda>a c. 10 * a + the (digit_val c)) 0 (replicate k CHR ''0'') = 0"
    by (induction k) (simp_all add: digit_val_zero)
  then show ?thesis by (simp add: digits_val_def)
qed

lemma digits_val_zfill: "digits_val (zfill w (dec n)) = n"
  by (simp add: zfill_def digits_val_zeros digits_val_dec)

lemma zfill_all_digits: "list_all is_digit (zfill w (dec n))"
  using dec_all_digits [of n] by (auto simp: zfill_def list_all_iff is_digit_zero)

lemma length_dec_le: "0 < k \<Longrightarrow> n < 10 ^ k \<Longrightarrow> length (dec n) \<le> k"
proof (induction n arbitrary: k rule: dec.induct)
  case (1 n)
  show ?case
  proof (cases "n < 10")
    case True
    then show ?thesis using 1(2) by (simp add: dec_lt10)
  next
    case False
    have "k \<noteq> 0" "k \<noteq> 1" using 1(2,3) False by auto
    then obtain j where k: "k = Suc j" "0 < j" by (cases k) auto
    then have "n div 10 < 10 ^ j" using 1(3) by (simp add: less_mult_imp_div_less mult.commute)
    then have "length (dec (n div 10)) \<le> j" using 1(1) False k by simp
    then show ?thesis using False k by (simp add: dec_ge10)
  qed
qed

lemma length_zfill: "length s \<le> w \<Longrightarrow> length (zfill w s) = w"
  by (simp add: zfill_def)







lemma dec_four_digits: "1000 \<le> n \<Longrightarrow> n \<le> 9999 \<Longrightarrow> dec n = four_digits n"
  by (simp add: dec_ge10 dec_lt10 four_digits_def div_mult2_eq [symmetric])


subsection \<open>What the handlers leave alone\<close>

lemma on_date_time_changed_frame:
  "hour (on_date_time_changed st) = hour st"
  "minutes (on_date_time_changed st) = minutes st"
  "calendar (on_date_time_changed st) = calendar st"
  "lock_signals (on_date_time_changed st) = lock_signals st"
  "changed_emitted (on_date_time_changed st) =
     (if lock_signals st then changed_emitted st else changed_emitted st + 1)"
  by (simp_all add: on_date_time_changed_def emit_changed_def Let_def)

lemma hour_set_value_frame:
  "hour (hour_set_value v st) = spin_clamp 0 23 v"
  "minutes (hour_set_value v st) = minutes st"
  "calendar (hour_set_value v st) = calendar st"
  "lock_signals (hour_set_value v st) = lock_signals st"
  "changed_emitted (hour_set_value v st) =
     (if lock_signals st \<or> spin_clamp 0 23 v = hour st then changed_emitted st
      else changed_emitted st + 1)"
  by (simp_all add: hour_set_value_def on_date_time_changed_frame Let_def)

lemma minutes_set_value_frame:
  "hour (minutes_set_value v st) = hour st"
  "minutes (minutes_set_value v st) = spin_clamp 0 59 v"
  "calendar (minutes_set_value v st) = calendar st"
  "lock_signals (minutes_set_value v st) = lock_signals st"
  "changed_emitted (minutes_set_value v st) =
     (if lock_signals st \<or> spin_clamp 0 59 v = minutes st then changed_emitted st
      else changed_emitted st + 1)"
  by (simp_all add: minutes_set_value_def on_date_time_changed_frame Let_def)

lemma calendar_select_day_frame:
  "hour (calendar_select_day h g st) = hour st"
  "minutes (calendar_select_day h g st) = minutes st"
  "calendar (calendar_select_day h g st) = g"
  "lock_signals (calendar_select_day h g st) = lock_signals st"
  "changed_emitted (calendar_select_day h g st) =
     (if lock_signals st \<or> (g = calendar st \<and> \<not> reselect_emits h) then changed_emitted st
      else changed_emitted st + 1)"
  by (simp_all add: calendar_select_day_def on_date_time_changed_frame)

subsection \<open>The state right after construction\<close>

text \<open>
  C6. Immediately after construction the value is unset: \<open>get_datetime\<close> returns the empty
  string, \<open>get_human_datetime\<close> returns the catalogue's entry for "Not Set", and
  \<open>get_datetime_as_int\<close> returns 0.
\<close>

theorem init_unset:
  "get_datetime (init h) = [] \<and>
   get_human_datetime h (init h) = gettext h ''Not Set'' \<and>
   get_datetime_as_int (init h) = Inr 0"
  by (simp add: init_def get_datetime_def get_human_datetime_def get_datetime_as_int_def)

subsection \<open>The shared handler\<close>





subsection \<open>The bulk setter\<close>

lemma set_datetime_empty:
  "set_datetime h [] st =
     Done ((calendar_select_day h (new_now_local h)
             (minutes_set_value 0 (hour_set_value 0 (st\<lparr>lock_signals := True\<rparr>))))
           \<lparr>datetime := [], lock_signals := False\<rparr>)"
  by (simp add: set_datetime_def Let_def)


text \<open>
  C3. A call of \<open>set_datetime\<close>, with any argument and whether it returns or raises, leaves
  the number of emitted \<open>changed\<close> signals as it was: the stepper and calendar updates it
  makes run under \<open>lock_signals\<close>, and it has no emit of its own.
\<close>

theorem set_datetime_silent:
  "changed_emitted (state_of (set_datetime h dt st)) = changed_emitted st"
  by (simp add: set_datetime_def Let_def hour_set_value_frame minutes_set_value_frame
      calendar_select_day_frame split: option.splits prod.splits)

text \<open>
  C8. When the argument is not empty and the parser rejects it, \<open>set_datetime\<close> raises
  \<open>ValueError\<close> to its caller; the stored string, the steppers and the calendar are as
  before, and so is what the three getters return.
\<close>

theorem set_datetime_malformed:
  assumes "dt \<noteq> []" "fromisoformat h dt = None"
  shows "set_datetime h dt st = Raised ValueError (st\<lparr>lock_signals := True\<rparr>) \<and>
         get_datetime (state_of (set_datetime h dt st)) = get_datetime st \<and>
         get_human_datetime h (state_of (set_datetime h dt st)) = get_human_datetime h st \<and>
         get_datetime_as_int (state_of (set_datetime h dt st)) = get_datetime_as_int st"
  using assms
  by (simp add: set_datetime_def Let_def get_datetime_def get_human_datetime_def
      get_datetime_as_int_def)

theorem set_datetime_malformed_witness:
  "set_datetime example_host ''next week'' (init example_host) =
     Raised ValueError (init example_host) \<and>
   get_datetime (state_of (set_datetime example_host ''next week'' (init example_host))) = []"
  using set_datetime_malformed [of "''next week''" example_host "init example_host"]
  by (simp add: example_host_def fromisoformat_basic_def init_def get_datetime_def)

text \<open>
  C9. The Clear button empties the stored string and emits once, and leaves both steppers
  and the calendar as they were; \<open>set_datetime("")\<close> returns with the stored string empty,
  both steppers at 0 and the calendar on the current day. After either, the three getters
  report the unset value; and unless steppers and calendar already were at 0, 0 and the
  current day, the two leave the sub-controls in different states.
\<close>

theorem clear_versus_set_empty:
  "datetime (on_clear_btn_clicked st) = [] \<and>
   changed_emitted (on_clear_btn_clicked st) = changed_emitted st + 1 \<and>
   hour (on_clear_btn_clicked st) = hour st \<and>
   minutes (on_clear_btn_clicked st) = minutes st \<and>
   calendar (on_clear_btn_clicked st) = calendar st \<and>
   (\<exists>st'. set_datetime h [] st = Done st' \<and> datetime st' = [] \<and>
      hour st' = 0 \<and> minutes st' = 0 \<and> calendar st' = new_now_local h \<and>
      get_datetime st' = [] \<and> get_human_datetime h st' = gettext h ''Not Set'' \<and>
      get_datetime_as_int st' = Inr 0 \<and>
      ((hour st, minutes st, calendar st) \<noteq> (0, 0, new_now_local h) \<longrightarrow>
         (hour (on_clear_btn_clicked st), minutes (on_clear_btn_clicked st),
          calendar (on_clear_btn_clicked st)) \<noteq> (hour st', minutes st', calendar st'))) \<and>
   get_datetime (on_clear_btn_clicked st) = [] \<and>
   get_human_datetime h (on_clear_btn_clicked st) = gettext h ''Not Set'' \<and>
   get_datetime_as_int (on_clear_btn_clicked st) = Inr 0"
  by (simp add: set_datetime_empty on_clear_btn_clicked_def emit_changed_def
      calendar_select_day_frame minutes_set_value_frame hour_set_value_frame
      get_datetime_def get_human_datetime_def get_datetime_as_int_def spin_clamp_def)

theorem clear_versus_set_empty_witness:
  "hour (on_clear_btn_clicked ((init example_host)\<lparr>hour := 9\<rparr>)) = 9 \<and>
   hour (state_of (set_datetime example_host [] ((init example_host)\<lparr>hour := 9\<rparr>))) = 0"
  using clear_versus_set_empty [of "(init example_host)\<lparr>hour := 9\<rparr>" example_host]
  by (auto simp: init_def)

subsection \<open>The suppression flag over the life of the widget\<close>




subsection \<open>The time buttons\<close>

lemma preset_ints:
  "py_int ''09'' = Some 9" "py_int ''13'' = Some 13" "py_int ''17'' = Some 17"
  "py_int ''20'' = Some 20" "py_int ''00'' = Some 0"
  by (simp_all add: py_int_def is_digit_def digit_val_def digits_val_def)

text \<open>
  C10 as stated fails: on the freshly built widget the button \<open>09:00\<close> moves the hour
  stepper from 0 to 9, and no \<open>changed\<close> signal is emitted for it.
\<close>

theorem time_preset_counterexample:
  "hour (init example_host) \<noteq> 9 \<and>
   hour (state_of (on_time_preset_clicked ''09:00'' (init example_host))) = 9 \<and>
   changed_emitted (state_of (on_time_preset_clicked ''09:00'' (init example_host))) =
     changed_emitted (init example_host)"
  by (simp add: on_time_preset_clicked_def preset_ints hour_set_value_frame
      minutes_set_value_frame spin_clamp_def) (simp add: init_def)

text \<open>
  C10, amended. A press of one of the four time buttons returns with the steppers at the
  hour and minute of its label, and has no emit of its own. While \<open>lock_signals\<close> is off it
  emits one \<open>changed\<close> signal for each stepper whose value changes (two, one or none); while
  \<open>lock_signals\<close> is on it emits none.
\<close>

theorem time_preset_emits:
  assumes "(l, H, M) \<in> set time_presets"
  shows "\<exists>st'. on_time_preset_clicked l st = Done st' \<and>
           hour st' = H \<and> minutes st' = M \<and> calendar st' = calendar st \<and>
           lock_signals st' = lock_signals st \<and>
           changed_emitted st' = changed_emitted st +
             (if lock_signals st then 0
              else (if hour st = H then 0 else 1) + (if minutes st = M then 0 else 1))"
  using assms
  by (auto simp: time_presets_def on_time_preset_clicked_def preset_ints hour_set_value_frame
      minutes_set_value_frame spin_clamp_def)

theorem time_preset_emits_witness:
  "changed_emitted (state_of (on_time_preset_clicked ''09:00''
     ((init example_host)\<lparr>lock_signals := False, minutes := 30\<rparr>))) = 2 \<and>
   changed_emitted (state_of (on_time_preset_clicked ''09:00''
     ((init example_host)\<lparr>lock_signals := False\<rparr>))) = 1 \<and>
   changed_emitted (state_of (on_time_preset_clicked ''09:00''
     ((init example_host)\<lparr>lock_signals := False, hour := 9\<rparr>))) = 0"
  using
    time_preset_emits [of "''09:00''" 9 0 "(init example_host)\<lparr>lock_signals := False, minutes := 30\<rparr>"]
    time_preset_emits [of "''09:00''" 9 0 "(init example_host)\<lparr>lock_signals := False\<rparr>"]
    time_preset_emits [of "''09:00''" 9 0 "(init example_host)\<lparr>lock_signals := False, hour := 9\<rparr>"]
  by (auto simp: time_presets_def init_def)

subsection \<open>The integer form\<close>

lemma not_digit_T: "\<not> is_digit CHR ''T''"
  by (simp add: is_digit_def digit_val_def)

lemma filter_T_digits: "list_all is_digit xs \<Longrightarrow> filter (\<lambda>c. c \<noteq> CHR ''T'') xs = xs"
  by (induction xs) (auto simp: not_digit_T)

lemma canonical_shape_split:
  assumes "canonical_shape s"
  shows "s = take 8 s @ CHR ''T'' # drop 9 s"
proof -
  have "8 < length s" "s ! 8 = CHR ''T''" using assms by (simp_all add: canonical_shape_def)
  then show ?thesis using id_take_nth_drop [of 8 s] by simp
qed

text \<open>
  C7. When the stored string has the canonical shape, \<open>get_datetime_as_int\<close> returns the
  decimal value of the string without its \<open>T\<close>; for the stored string
  \<open>20240115T090000\<close> that is 20240115090000; and for the empty string it returns 0.
\<close>

theorem get_datetime_as_int_canonical:
  "(canonical_shape (datetime st) \<longrightarrow>
      get_datetime_as_int st =
        Inr (int (digits_val (filter (\<lambda>c. c \<noteq> CHR ''T'') (datetime st))))) \<and>
   get_datetime_as_int (st\<lparr>datetime := ''20240115T090000''\<rparr>) = Inr 20240115090000 \<and>
   get_datetime_as_int (st\<lparr>datetime := []\<rparr>) = Inr 0"
proof (intro conjI impI)
  assume c: "canonical_shape (datetime st)"
  let ?s = "datetime st"
  have d: "list_all is_digit (take 8 ?s)" "list_all is_digit (drop 9 ?s)" and l: "length ?s = 15"
    using c by (simp_all add: canonical_shape_def)
  have "filter (\<lambda>c. c \<noteq> CHR ''T'') ?s =
        filter (\<lambda>c. c \<noteq> CHR ''T'') (take 8 ?s @ CHR ''T'' # drop 9 ?s)"
    using canonical_shape_split [OF c] by simp
  also have "\<dots> = take 8 ?s @ drop 9 ?s"
    using d by (simp add: filter_T_digits)
  finally have f: "filter (\<lambda>c. c \<noteq> CHR ''T'') ?s = take 8 ?s @ drop 9 ?s" .
  have "?s \<noteq> []" "take 8 ?s \<noteq> []" using l by auto
  then show "get_datetime_as_int st = Inr (int (digits_val (filter (\<lambda>c. c \<noteq> CHR ''T'') ?s)))"
    using d by (simp add: get_datetime_as_int_def py_int_def f)
next
  show "get_datetime_as_int (st\<lparr>datetime := ''20240115T090000''\<rparr>) = Inr 20240115090000"
    by (simp add: get_datetime_as_int_def py_int_def is_digit_def digit_val_def digits_val_def)
next
  show "get_datetime_as_int (st\<lparr>datetime := []\<rparr>) = Inr 0"
    by (simp add: get_datetime_as_int_def)
qed

theorem get_datetime_as_int_canonical_witness:
  "get_datetime_as_int ((init example_host)\<lparr>datetime := ''20251231T235900''\<rparr>) =
     Inr 20251231235900"
proof -
  have c: "canonical_shape (datetime ((init example_host)\<lparr>datetime := ''20251231T235900''\<rparr>))"
    by (simp add: canonical_shape_def is_digit_def digit_val_def)
  show ?thesis
    using c get_datetime_as_int_canonical [of "(init example_host)\<lparr>datetime := ''20251231T235900''\<rparr>"]
    by (simp add: digits_val_def digit_val_def)
qed

subsection \<open>Setting a parsed date\<close>

lemma slice_parts:
  assumes "length a = 4" "length b = 2" "length c = 2" "length e = 2" "length f = 2"
  shows "slice 0 4 (a @ b @ c @ CHR ''T'' # e @ f @ g) = a"
    "slice 4 6 (a @ b @ c @ CHR ''T'' # e @ f @ g) = b"
    "slice 6 8 (a @ b @ c @ CHR ''T'' # e @ f @ g) = c"
    "slice 9 11 (a @ b @ c @ CHR ''T'' # e @ f @ g) = e"
    "slice 11 13 (a @ b @ c @ CHR ''T'' # e @ f @ g) = f"
    "slice 13 15 (a @ b @ c @ CHR ''T'' # e @ f @ g) = take 2 g"
    "(a @ b @ c @ CHR ''T'' # e @ f @ g) ! 8 = CHR ''T''"
    "take 8 (a @ b @ c @ CHR ''T'' # e @ f @ g) = a @ b @ c"
    "drop 9 (a @ b @ c @ CHR ''T'' # e @ f @ g) = e @ f @ g"
  using assms by (simp_all add: slice_def nth_append)

lemma length_zfill_dec:
  "n \<le> 9999 \<Longrightarrow> length (zfill 4 (dec n)) = 4"
  "n < 100 \<Longrightarrow> length (zfill 2 (dec n)) = 2"
  by (simp_all add: length_zfill length_dec_le)

lemma py_int_zfill: "py_int (zfill w (dec n)) = Some (int n)"
  by (simp add: py_int_def zfill_all_digits digits_val_zfill) (simp add: zfill_def dec_not_Nil)

lemma days_in_month_le: "days_in_month y m \<le> 31"
  by (simp add: days_in_month_def)

lemma valid_pydatetime_bounds:
  assumes "valid_pydatetime d"
  shows "dt_year d \<le> 9999" "dt_month d < 100" "dt_day d < 100" "dt_hour d < 100"
    "dt_minute d < 100"
  using assms days_in_month_le [of "dt_year d" "dt_month d"]
  by (simp_all add: valid_pydatetime_def valid_date_def)

lemma dec_year_zfill: "1000 \<le> n \<Longrightarrow> n \<le> 9999 \<Longrightarrow> dec n = zfill 4 (dec n)"
  by (simp add: dec_four_digits zfill_def four_digits_def)

text \<open>From the year 1000 on the plain decimal year has four digits, and the text is of fixed width.\<close>

lemma strftime_padded:
  assumes "valid_pydatetime d" "1000 \<le> dt_year d"
  shows "strftime_YmdTHM00 d =
     zfill 4 (dec (dt_year d)) @ zfill 2 (dec (dt_month d)) @ zfill 2 (dec (dt_day d)) @
     CHR ''T'' # zfill 2 (dec (dt_hour d)) @ zfill 2 (dec (dt_minute d)) @ ''00''"
proof -
  have "dt_year d \<le> 9999" using assms(1) by (simp add: valid_pydatetime_def valid_date_def)
  then have "dec (dt_year d) = zfill 4 (dec (dt_year d))"
    using assms(2) by (rule dec_year_zfill [rotated])
  then show ?thesis by (simp add: strftime_YmdTHM00_def)
qed

lemma strftime_slices:
  assumes "valid_pydatetime d" "1000 \<le> dt_year d"
  shows "slice 0 4 (strftime_YmdTHM00 d) = zfill 4 (dec (dt_year d))"
    "slice 4 6 (strftime_YmdTHM00 d) = zfill 2 (dec (dt_month d))"
    "slice 6 8 (strftime_YmdTHM00 d) = zfill 2 (dec (dt_day d))"
    "slice 9 11 (strftime_YmdTHM00 d) = zfill 2 (dec (dt_hour d))"
    "slice 11 13 (strftime_YmdTHM00 d) = zfill 2 (dec (dt_minute d))"
  using valid_pydatetime_bounds [OF assms(1)]
  by (simp_all add: strftime_padded [OF assms] slice_parts length_zfill_dec)

lemma g_date_time_new_local_valid:
  "valid_date y m d \<Longrightarrow>
     g_date_time_new_local (int y) (int m) (int d) = Some \<lparr>g_year = y, g_month = m, g_day = d\<rparr>"
  by (simp add: g_date_time_new_local_def)

lemma set_datetime_parsed:
  assumes "dt \<noteq> []" "fromisoformat h dt = Some d" "valid_pydatetime d" "1000 \<le> dt_year d"
  shows "set_datetime h dt st =
     Done ((calendar_select_day h \<lparr>g_year = dt_year d, g_month = dt_month d, g_day = dt_day d\<rparr>
             (minutes_set_value (int (dt_minute d))
                (hour_set_value (int (dt_hour d)) (st\<lparr>lock_signals := True\<rparr>))))
           \<lparr>datetime := strftime_YmdTHM00 d, lock_signals := False\<rparr>)"
proof -
  have v: "valid_date (dt_year d) (dt_month d) (dt_day d)"
    using assms(3) by (simp add: valid_pydatetime_def)
  show ?thesis
    using assms(1,2)
    by (simp add: set_datetime_def Let_def strftime_slices [OF assms(3,4)] py_int_zfill
        g_date_time_new_local_valid [OF v])
qed

subsection \<open>The round trip through \<open>set_datetime\<close>\<close>








subsection \<open>The buttons Now, Today, Tomorrow and Clear\<close>

lemma digits_val_00: "digits_val ''00'' = 0"
  by (simp add: digits_val_def digit_val_def)

lemma fromisoformat_basic_strftime:
  assumes "valid_pydatetime d" "1000 \<le> dt_year d"
  shows "fromisoformat_basic (strftime_YmdTHM00 d) = Some (d\<lparr>dt_second := 0\<rparr>)"
proof -
  note b = valid_pydatetime_bounds [OF assms(1)]
  let ?a = "zfill 4 (dec (dt_year d))" and ?b = "zfill 2 (dec (dt_month d))"
    and ?c = "zfill 2 (dec (dt_day d))" and ?e = "zfill 2 (dec (dt_hour d))"
    and ?f = "zfill 2 (dec (dt_minute d))"
  have s: "strftime_YmdTHM00 d = ?a @ ?b @ ?c @ CHR ''T'' # ?e @ ?f @ ''00''"
    by (rule strftime_padded [OF assms])
  have len: "length ?a = 4" "length ?b = 2" "length ?c = 2" "length ?e = 2" "length ?f = 2"
    using b by (simp_all add: length_zfill_dec)
  note sp = slice_parts [OF len, of "''00''"]
  have l: "length (strftime_YmdTHM00 d) = 15" by (simp add: s len)
  have dg: "list_all is_digit (?a @ ?b @ ?c)" "list_all is_digit (?e @ ?f @ ''00'')"
    by (simp_all add: zfill_all_digits is_digit_zero)
  have v: "valid_pydatetime (d\<lparr>dt_second := 0\<rparr>)"
    using assms(1) by (simp add: valid_pydatetime_def)
  have r: "\<lparr>dt_year = dt_year d, dt_month = dt_month d, dt_day = dt_day d, dt_hour = dt_hour d,
            dt_minute = dt_minute d, dt_second = 0\<rparr> = d\<lparr>dt_second := 0\<rparr>"
    by simp
  show ?thesis
    unfolding fromisoformat_basic_def l
    by (simp only: s sp dg digits_val_zfill Let_def) (simp add: digits_val_00 r v)
qed

lemma strftime_midnight:
  "strftime_YmdT000000 d = strftime_YmdTHM00 (d\<lparr>dt_hour := 0, dt_minute := 0\<rparr>)"
  by (simp add: strftime_YmdT000000_def strftime_YmdTHM00_def zfill_def dec_lt10 digit_char_def)

lemma strftime_ignores_second:
  "strftime_YmdTHM00 (d\<lparr>dt_second := x\<rparr>) = strftime_YmdTHM00 d"
  by (simp add: strftime_YmdTHM00_def)

lemma valid_midnight:
  "valid_pydatetime d \<Longrightarrow> valid_pydatetime (d\<lparr>dt_hour := 0, dt_minute := 0\<rparr>)"
  by (simp add: valid_pydatetime_def)

lemma days_in_month_ge: "1 \<le> days_in_month y m"
  by (simp add: days_in_month_def)

lemma add_one_day_year:
  assumes "add_one_day d = Some d'"
  shows "dt_year d \<le> dt_year d'"
proof -
  consider "d' = d\<lparr>dt_day := dt_day d + 1\<rparr>"
    | "d' = d\<lparr>dt_month := dt_month d + 1, dt_day := 1\<rparr>"
    | "d' = d\<lparr>dt_year := dt_year d + 1, dt_month := 1, dt_day := 1\<rparr>"
    using assms unfolding add_one_day_def by (metis option.distinct(1) option.inject)
  then show ?thesis by cases simp_all
qed

lemma add_one_day_valid:
  assumes "valid_pydatetime d" "add_one_day d = Some d'"
  shows "valid_pydatetime d'"
proof -
  have v: "1 \<le> dt_year d" "dt_year d \<le> 9999" "1 \<le> dt_month d" "dt_month d \<le> 12"
      "1 \<le> dt_day d" "dt_hour d \<le> 23" "dt_minute d \<le> 59" "dt_second d \<le> 59"
    using assms(1) by (simp_all add: valid_pydatetime_def valid_date_def)
  consider (day) "dt_day d < days_in_month (dt_year d) (dt_month d)"
      "d' = d\<lparr>dt_day := dt_day d + 1\<rparr>"
    | (month) "dt_month d < 12" "d' = d\<lparr>dt_month := dt_month d + 1, dt_day := 1\<rparr>"
    | (year) "dt_year d < 9999" "d' = d\<lparr>dt_year := dt_year d + 1, dt_month := 1, dt_day := 1\<rparr>"
    using assms(2) unfolding add_one_day_def by (metis option.distinct(1) option.inject)
  then show ?thesis
  proof cases
    case day
    then show ?thesis using v by (simp add: valid_pydatetime_def valid_date_def)
  next
    case month
    then show ?thesis
      using v days_in_month_ge [of "dt_year d" "dt_month d + 1"]
      by (simp add: valid_pydatetime_def valid_date_def)
  next
    case year
    then show ?thesis
      using v days_in_month_ge [of "dt_year d + 1" 1]
      by (simp add: valid_pydatetime_def valid_date_def)
  qed
qed

lemma set_datetime_now_string:
  assumes "valid_pydatetime d" "1000 \<le> dt_year d"
    and "fromisoformat h (strftime_YmdTHM00 d) = fromisoformat_basic (strftime_YmdTHM00 d)"
  shows "\<exists>s1. set_datetime h (strftime_YmdTHM00 d) st = Done s1 \<and>
           datetime s1 = strftime_YmdTHM00 d \<and> changed_emitted s1 = changed_emitted st"
proof -
  have p: "fromisoformat h (strftime_YmdTHM00 d) = Some (d\<lparr>dt_second := 0\<rparr>)"
    using assms by (simp add: fromisoformat_basic_strftime)
  have v: "valid_pydatetime (d\<lparr>dt_second := 0\<rparr>)"
    using assms(1) by (simp add: valid_pydatetime_def)
  have y: "1000 \<le> dt_year (d\<lparr>dt_second := 0\<rparr>)" using assms(2) by simp
  have n: "strftime_YmdTHM00 d \<noteq> []" by (simp add: strftime_YmdTHM00_def dec_not_Nil)
  show ?thesis
    by (simp add: set_datetime_parsed [OF n p v y] strftime_ignores_second
        calendar_select_day_frame minutes_set_value_frame hour_set_value_frame)
qed

lemma set_datetime_midnight_string:
  assumes "valid_pydatetime d" "1000 \<le> dt_year d"
    and "fromisoformat h (strftime_YmdT000000 d) = fromisoformat_basic (strftime_YmdT000000 d)"
  shows "\<exists>s1. set_datetime h (strftime_YmdT000000 d) st = Done s1 \<and>
           datetime s1 = strftime_YmdT000000 d \<and> changed_emitted s1 = changed_emitted st"
  using set_datetime_now_string [of "d\<lparr>dt_hour := 0, dt_minute := 0\<rparr>" h st] assms
  by (simp add: strftime_midnight valid_midnight)

text \<open>
  C4 as stated fails for Clear: the button does not go through \<open>set_datetime\<close>. With the
  hour stepper at 9, Clear leaves it at 9, where \<open>set_datetime("")\<close> followed by an emit
  would have put it at 0.
\<close>

theorem clear_skips_set_datetime_counterexample:
  "hour (on_clear_btn_clicked ((init example_host)\<lparr>hour := 9\<rparr>)) = 9 \<and>
   hour (emit_changed (state_of (set_datetime example_host [] ((init example_host)\<lparr>hour := 9\<rparr>))))
     = 0"
  by (simp add: on_clear_btn_clicked_def emit_changed_def set_datetime_empty
      calendar_select_day_frame minutes_set_value_frame hour_set_value_frame spin_clamp_def)

text \<open>
  C4, amended. On a host whose clock gives an existing date, of the year 1000 or later,
  that has a next day, and whose parser reads the strings the buttons format, each of Now, Today and Tomorrow calls
  \<open>set_datetime\<close>, which returns, and then emits: one \<open>changed\<close> signal in total per press,
  with the stored string the one formatted. Clear does not call \<open>set_datetime\<close>: it empties
  the stored string, leaves steppers, calendar and flag as they were, and emits one
  \<open>changed\<close> signal.
\<close>

theorem preset_buttons_emit_once:
  assumes "valid_pydatetime (now h)" and "1000 \<le> dt_year (now h)"
    and "fromisoformat h (strftime_YmdTHM00 (now h)) =
           fromisoformat_basic (strftime_YmdTHM00 (now h))"
    and "fromisoformat h (strftime_YmdT000000 (now h)) =
           fromisoformat_basic (strftime_YmdT000000 (now h))"
    and "add_one_day (now h) = Some d"
    and "fromisoformat h (strftime_YmdT000000 d) = fromisoformat_basic (strftime_YmdT000000 d)"
  shows
    "(\<exists>s1. set_datetime h (strftime_YmdTHM00 (now h)) st = Done s1 \<and>
        on_now_btn_clicked h st = Done (emit_changed s1) \<and>
        datetime (emit_changed s1) = strftime_YmdTHM00 (now h) \<and>
        changed_emitted (emit_changed s1) = changed_emitted st + 1) \<and>
     (\<exists>s1. set_datetime h (strftime_YmdT000000 (now h)) st = Done s1 \<and>
        on_today_btn_clicked h st = Done (emit_changed s1) \<and>
        datetime (emit_changed s1) = strftime_YmdT000000 (now h) \<and>
        changed_emitted (emit_changed s1) = changed_emitted st + 1) \<and>
     (\<exists>s1. set_datetime h (strftime_YmdT000000 d) st = Done s1 \<and>
        on_tomorrow_btn_clicked h st = Done (emit_changed s1) \<and>
        datetime (emit_changed s1) = strftime_YmdT000000 d \<and>
        changed_emitted (emit_changed s1) = changed_emitted st + 1) \<and>
     datetime (on_clear_btn_clicked st) = [] \<and>
     changed_emitted (on_clear_btn_clicked st) = changed_emitted st + 1 \<and>
     hour (on_clear_btn_clicked st) = hour st \<and>
     minutes (on_clear_btn_clicked st) = minutes st \<and>
     calendar (on_clear_btn_clicked st) = calendar st \<and>
     lock_signals (on_clear_btn_clicked st) = lock_signals st"
proof -
  have vd: "valid_pydatetime d" using assms(1,5) by (rule add_one_day_valid)
  have yd: "1000 \<le> dt_year d" using add_one_day_year [OF assms(5)] assms(2) by simp
  obtain a where a: "set_datetime h (strftime_YmdTHM00 (now h)) st = Done a"
      "datetime a = strftime_YmdTHM00 (now h)" "changed_emitted a = changed_emitted st"
    using set_datetime_now_string [OF assms(1,2,3)] by blast
  obtain b where b: "set_datetime h (strftime_YmdT000000 (now h)) st = Done b"
      "datetime b = strftime_YmdT000000 (now h)" "changed_emitted b = changed_emitted st"
    using set_datetime_midnight_string [OF assms(1,2,4)] by blast
  obtain c where c: "set_datetime h (strftime_YmdT000000 d) st = Done c"
      "datetime c = strftime_YmdT000000 d" "changed_emitted c = changed_emitted st"
    using set_datetime_midnight_string [OF vd yd assms(6)] by blast
  show ?thesis
    using a b c assms(5)
    by (simp add: on_now_btn_clicked_def on_today_btn_clicked_def on_tomorrow_btn_clicked_def
        on_clear_btn_clicked_def emit_changed_def)
qed

theorem preset_buttons_emit_once_witness:
  "datetime (state_of (on_now_btn_clicked example_host (init example_host))) =
     ''20240115T093000'' \<and>
   changed_emitted (state_of (on_now_btn_clicked example_host (init example_host))) = 1 \<and>
   datetime (state_of (on_today_btn_clicked example_host (init example_host))) =
     ''20240115T000000'' \<and>
   changed_emitted (state_of (on_today_btn_clicked example_host (init example_host))) = 1 \<and>
   datetime (state_of (on_tomorrow_btn_clicked example_host (init example_host))) =
     ''20240116T000000'' \<and>
   changed_emitted (state_of (on_tomorrow_btn_clicked example_host (init example_host))) = 1 \<and>
   changed_emitted (on_clear_btn_clicked (init example_host)) = 1"
proof -
  let ?d = "\<lparr>dt_year = 2024, dt_month = 1, dt_day = 16, dt_hour = 9, dt_minute = 30,
             dt_second = 12\<rparr>"
  have v: "valid_pydatetime (now example_host)"
    by (simp add: example_host_def valid_pydatetime_def valid_date_def days_in_month_def)
  have y: "1000 \<le> dt_year (now example_host)"
    by (simp add: example_host_def)
  have p: "fromisoformat example_host x = fromisoformat_basic x" for x
    by (simp add: example_host_def)
  have t: "add_one_day (now example_host) = Some ?d"
    by (simp add: example_host_def add_one_day_def days_in_month_def)
  have n: "strftime_YmdTHM00 (now example_host) = ''20240115T093000''"
      "strftime_YmdT000000 (now example_host) = ''20240115T000000''"
      "strftime_YmdT000000 ?d = ''20240116T000000''"
    by (simp_all add: example_host_def strftime_YmdTHM00_def strftime_YmdT000000_def zfill_def
        dec.simps digit_char_def)
  have e: "changed_emitted (init example_host) = 0" by (simp add: init_def)
  show ?thesis
    using preset_buttons_emit_once [OF v y p p t p, of "init example_host", unfolded n e]
    by auto
qed

end
